theory Spec2Isabelle
  imports Main
begin

section \<open>JavaScript values the store handles\<close>

text \<open>
  Room identifiers and phases are JavaScript strings that may also be \<open>undefined\<close>
  (a field never assigned, such as \<open>viewedRoomId\<close> of a new store) or \<open>null\<close>
  (the default of the \<open>roomId\<close> parameters). The three cases behave differently
  under \<open>??\<close>, \<open>===\<close>, \<open>!!\<close> and as property keys, so all three are kept.
\<close>

datatype jsstr = Undefined | Null | Str string

text \<open>\<open>obj[v]\<close>: a property key is the string the value is coerced to.\<close>

definition toKey :: "jsstr \<Rightarrow> string" where
  "toKey v = (case v of Undefined \<Rightarrow> ''undefined'' | Null \<Rightarrow> ''null'' | Str s \<Rightarrow> s)"

text \<open>\<open>!!v\<close>: the empty string, \<open>null\<close> and \<open>undefined\<close> are falsy.\<close>

definition truthy :: "jsstr \<Rightarrow> bool" where
  "truthy v = (case v of Undefined \<Rightarrow> False | Null \<Rightarrow> False | Str s \<Rightarrow> s \<noteq> [])"

text \<open>\<open>a ?? b\<close>: the right operand replaces \<open>null\<close> and \<open>undefined\<close> only.\<close>

definition coalesce :: "jsstr \<Rightarrow> jsstr \<Rightarrow> jsstr" where
  "coalesce a b = (case a of Undefined \<Rightarrow> b | Null \<Rightarrow> b | Str s \<Rightarrow> Str s)"

section \<open>Phases\<close>

text \<open>
  Modelled from the spec: the enum \<open>RightPanelPhases\<close> is declared in
  \<open>RightPanelStorePhases\<close>, which is not among the sources. The spec describes it as an
  enumerated tag that splits into room phases and legacy group phases. Its members are
  taken to be the names the two source files refer to as \<open>RightPanelPhases.X\<close>, each a
  string enum member whose value is its own name.
\<close>

definition RightPanelPhases :: "string list" where
  "RightPanelPhases =
    [''RoomMemberList'', ''FilePanel'', ''NotificationPanel'', ''RoomMemberInfo'',
     ''EncryptionPanel'', ''RoomSummary'', ''Widget'', ''PinnedMessages'', ''Timeline'',
     ''Room3pidMemberInfo'', ''GroupMemberList'', ''GroupRoomList'', ''GroupRoomInfo'',
     ''GroupMemberInfo'', ''SpaceMemberList'', ''SpaceMemberInfo'', ''Space3pidMemberInfo'',
     ''ThreadView'', ''ThreadPanel'']"

text \<open>
  A TypeScript enum compiles to a plain object, so a property read on it also finds what
  every object inherits from \<open>Object.prototype\<close>: the standard methods, the legacy
  accessor helpers and \<open>__proto__\<close>. Each of these is a function or an object.
\<close>

definition ObjectPrototype :: "string list" where
  "ObjectPrototype =
    [''constructor'', ''hasOwnProperty'', ''isPrototypeOf'', ''propertyIsEnumerable'',
     ''toLocaleString'', ''toString'', ''valueOf'', ''__defineGetter__'',
     ''__defineSetter__'', ''__lookupGetter__'', ''__lookupSetter__'', ''__proto__'']"

text \<open>What a property read gives: nothing, a string, or a function or object known by its name.\<close>

datatype jsvalue = NoValue | StringValue string | ObjectValue string

text \<open>\<open>!!v\<close> on such a value: functions and objects are truthy.\<close>

definition truthyValue :: "jsvalue \<Rightarrow> bool" where
  "truthyValue v =
    (case v of NoValue \<Rightarrow> False | StringValue s \<Rightarrow> s \<noteq> [] | ObjectValue n \<Rightarrow> True)"

text \<open>
  \<open>RightPanelPhases[targetPhase]\<close>: the member's value, else the inherited property of
  that name, else \<open>undefined\<close>.
\<close>

definition enumLookup :: "jsstr \<Rightarrow> jsvalue" where
  "enumLookup p =
    (if toKey p \<in> set RightPanelPhases then StringValue (toKey p)
     else if toKey p \<in> set ObjectPrototype then ObjectValue (toKey p)
     else NoValue)"

abbreviation RoomMemberList :: jsstr where "RoomMemberList \<equiv> Str ''RoomMemberList''"
abbreviation RoomMemberInfo :: jsstr where "RoomMemberInfo \<equiv> Str ''RoomMemberInfo''"
abbreviation Room3pidMemberInfo :: jsstr where "Room3pidMemberInfo \<equiv> Str ''Room3pidMemberInfo''"
abbreviation EncryptionPanel :: jsstr where "EncryptionPanel \<equiv> Str ''EncryptionPanel''"
abbreviation RoomSummary :: jsstr where "RoomSummary \<equiv> Str ''RoomSummary''"
abbreviation FilePanel :: jsstr where "FilePanel \<equiv> Str ''FilePanel''"
abbreviation NotificationPanel :: jsstr where "NotificationPanel \<equiv> Str ''NotificationPanel''"
abbreviation GroupMemberList :: jsstr where "GroupMemberList \<equiv> Str ''GroupMemberList''"
abbreviation GroupRoomList :: jsstr where "GroupRoomList \<equiv> Str ''GroupRoomList''"
abbreviation GroupRoomInfo :: jsstr where "GroupRoomInfo \<equiv> Str ''GroupRoomInfo''"
abbreviation GroupMemberInfo :: jsstr where "GroupMemberInfo \<equiv> Str ''GroupMemberInfo''"

definition GROUP_PHASES :: "jsstr list" where
  "GROUP_PHASES = [GroupMemberList, GroupRoomList, GroupRoomInfo, GroupMemberInfo]"

definition MEMBER_INFO_PHASES :: "jsstr list" where
  "MEMBER_INFO_PHASES = [RoomMemberInfo, Room3pidMemberInfo, EncryptionPanel]"

section \<open>The data model\<close>

text \<open>
  A panel state is an open mapping; the store itself reads only \<open>member\<close> and writes
  only \<open>member\<close> and \<open>verificationRequest\<close>. The remaining fields are carried as a list
  of named values. A member and a verification request are opaque handles, told apart by
  an identity. Objects are modelled by their values: two states with the same fields are
  the same state.
\<close>

datatype Member = Member string

datatype VerificationRequest = VerificationRequest nat

record IPanelState =
  member :: "Member option"
  verificationRequest :: "VerificationRequest option"
  otherFields :: "(string \<times> string) list"

text \<open>The object literal \<open>{}\<close>.\<close>

definition emptyState :: IPanelState where
  "emptyState = \<lparr>member = None, verificationRequest = None, otherFields = []\<rparr>"

text \<open>An entry's \<open>state\<close> is \<open>None\<close> where the source stores \<open>null\<close>.\<close>

record IPhaseAndState =
  phase :: jsstr
  state :: "IPanelState option"

record IRightPanelForRoom =
  history :: "IPhaseAndState list"
  isOpen :: bool

section \<open>Collaborators and effects\<close>

text \<open>
  The settings store, the client, the verification lookup and the two conversion
  functions are imported by the source and are parameters here. \<open>getValue\<close> takes the
  setting's name and the room id when one is passed. What the store sends out is
  recorded in order: each \<open>SettingsStore.setValue\<close> call and each \<open>UPDATE_EVENT\<close>
  in \<open>sent\<close>, each \<open>logger.warn\<close> in \<open>warned\<close>.
\<close>

record ('st, 'room) collaborators =
  pendingVerificationRequestForUser :: "Member option \<Rightarrow> VerificationRequest option"
  convertToStoreRoom :: "IRightPanelForRoom option \<Rightarrow> 'st"
  convertToStateRoom :: "'st \<Rightarrow> 'room \<Rightarrow> IRightPanelForRoom option"
  getValue :: "string \<Rightarrow> jsstr option \<Rightarrow> 'st"
  getRoom :: "jsstr \<Rightarrow> 'room option"

datatype SettingLevel = DEVICE | ROOM_DEVICE

datatype 'st effect = SetValue string jsstr SettingLevel 'st | Emit

datatype warning = UnknownPhase jsstr | GroupPhaseInRoom jsstr | RoomPhaseInGroup jsstr

datatype error = TypeError

text \<open>
  The fields of \<open>RightPanelStore\<close>. \<open>isViewingRoom\<close> and \<open>roomStoreToken\<close> are only
  ever tested for truthiness, so each is a boolean, false for \<open>undefined\<close>. \<open>byRoom\<close> is
  the object used as a dictionary; a key holding \<open>undefined\<close> reads like a missing key,
  and a room id that names a property inherited from \<open>Object.prototype\<close> is outside
  the model.
\<close>

record 'st RightPanelStore =
  viewedRoomId :: jsstr
  isViewingRoom :: bool
  roomStoreToken :: bool
  byRoom :: "string \<rightharpoonup> IRightPanelForRoom"
  global :: "IRightPanelForRoom option"
  sent :: "'st effect list"
  warned :: "warning list"

section \<open>Getters\<close>

definition isOpenForRoom :: "'st RightPanelStore \<Rightarrow> bool" where
  "isOpenForRoom s =
    (case byRoom s (toKey (viewedRoomId s)) of None \<Rightarrow> False | Some r \<Rightarrow> isOpen r)"

definition roomPhaseHistory :: "'st RightPanelStore \<Rightarrow> IPhaseAndState list" where
  "roomPhaseHistory s =
    (case byRoom s (toKey (viewedRoomId s)) of None \<Rightarrow> [] | Some r \<Rightarrow> history r)"

text \<open>The sentinel \<open>{ state: {}, phase: null }\<close>.\<close>

definition noPanel :: IPhaseAndState where
  "noPanel = \<lparr>phase = Null, state = Some emptyState\<rparr>"

definition currentPanel :: "'st RightPanelStore \<Rightarrow> IPhaseAndState" where
  "currentPanel s =
    (let hist = roomPhaseHistory s in if length hist \<ge> 1 then last hist else noPanel)"

definition currentPanelForRoom :: "'st RightPanelStore \<Rightarrow> jsstr \<Rightarrow> IPhaseAndState" where
  "currentPanelForRoom s roomId =
    (let hist = (case byRoom s (toKey roomId) of None \<Rightarrow> [] | Some r \<Rightarrow> history r)
     in if length hist > 0 then last hist else currentPanel s)"

definition previousPanel :: "'st RightPanelStore \<Rightarrow> IPhaseAndState" where
  "previousPanel s =
    (let hist = roomPhaseHistory s
     in if length hist \<ge> 2 then hist ! (length hist - 2) else noPanel)"

section \<open>Private helpers\<close>

definition emitAndUpdateSettings ::
  "('st, 'room) collaborators \<Rightarrow> 'st RightPanelStore \<Rightarrow> 'st RightPanelStore" where
  "emitAndUpdateSettings E s =
    (let storePanelGlobal = convertToStoreRoom E (global s);
         storePanelThisRoom = convertToStoreRoom E (byRoom s (toKey (viewedRoomId s)))
     in s\<lparr>sent := sent s
          @ [SetValue ''RightPanel.phasesGlobal'' Null DEVICE storePanelGlobal]
          @ (if truthy (viewedRoomId s)
             then [SetValue ''RightPanel.phases'' (viewedRoomId s) ROOM_DEVICE storePanelThisRoom]
             else [])
          @ [Emit]\<rparr>)"

definition loadCacheFromSettings ::
  "('st, 'room) collaborators \<Rightarrow> 'st RightPanelStore \<Rightarrow> 'st RightPanelStore" where
  "loadCacheFromSettings E s =
    (case getRoom E (viewedRoomId s) of
       None \<Rightarrow> s
     | Some room \<Rightarrow>
         (let s1 = s\<lparr>global :=
                (case global s of
                   Some g \<Rightarrow> Some g
                 | None \<Rightarrow> convertToStateRoom E (getValue E ''RightPanel.phasesGlobal'' None) room)\<rparr>
          in s1\<lparr>byRoom := (byRoom s1)(toKey (viewedRoomId s1) :=
                (case byRoom s1 (toKey (viewedRoomId s1)) of
                   Some r \<Rightarrow> Some r
                 | None \<Rightarrow>
                     convertToStateRoom E
                       (getValue E ''RightPanel.phases'' (Some (viewedRoomId s1))) room))\<rparr>))"

text \<open>Overrides the history of the room being viewed, whatever room the caller named.\<close>

definition setRightPanelCache ::
  "('st, 'room) collaborators \<Rightarrow> jsstr \<Rightarrow> IPanelState option \<Rightarrow>
    'st RightPanelStore \<Rightarrow> 'st RightPanelStore" where
  "setRightPanelCache E targetPhase panelState s =
    emitAndUpdateSettings E
      (s\<lparr>byRoom := (byRoom s)(toKey (viewedRoomId s) \<mapsto>
          \<lparr>history = [\<lparr>phase = targetPhase,
                        state = Some (case panelState of None \<Rightarrow> emptyState | Some p \<Rightarrow> p)\<rparr>],
           isOpen = True\<rparr>)\<rparr>)"

definition getVerificationRedirect ::
  "('st, 'room) collaborators \<Rightarrow> IPhaseAndState \<Rightarrow> IPhaseAndState option" where
  "getVerificationRedirect E phaseAndState =
    (if phase phaseAndState = RoomMemberInfo then
       (case state phaseAndState of
          None \<Rightarrow> None
        | Some st \<Rightarrow>
            (case pendingVerificationRequestForUser E (member st) of
               None \<Rightarrow> None
             | Some pendingRequest \<Rightarrow>
                 Some \<lparr>phase = EncryptionPanel,
                       state = Some \<lparr>member = member st,
                                     verificationRequest = Some pendingRequest,
                                     otherFields = []\<rparr>\<rparr>))
     else None)"

text \<open>The verdict, and the store with the warning logged when the phase is refused.\<close>

definition isPhaseActionIsValid ::
  "jsstr \<Rightarrow> 'st RightPanelStore \<Rightarrow> bool \<times> 'st RightPanelStore" where
  "isPhaseActionIsValid targetPhase s =
    (if \<not> truthyValue (enumLookup targetPhase) then
       (False, s\<lparr>warned := warned s @ [UnknownPhase targetPhase]\<rparr>)
     else if targetPhase \<in> set GROUP_PHASES \<and> isViewingRoom s then
       (False, s\<lparr>warned := warned s @ [GroupPhaseInRoom targetPhase]\<rparr>)
     else if targetPhase \<notin> set GROUP_PHASES \<and> \<not> isViewingRoom s then
       (False, s\<lparr>warned := warned s @ [RoomPhaseInGroup targetPhase]\<rparr>)
     else (True, s))"

text \<open>\<open>redirect?.phase ?? phase\<close> and \<open>redirect?.state ?? state\<close>.\<close>

definition redirectedPhase :: "IPhaseAndState option \<Rightarrow> jsstr \<Rightarrow> jsstr" where
  "redirectedPhase redirect ph =
    (case redirect of None \<Rightarrow> ph | Some r \<Rightarrow> coalesce (phase r) ph)"

definition redirectedState ::
  "IPhaseAndState option \<Rightarrow> IPanelState option \<Rightarrow> IPanelState option" where
  "redirectedState redirect st =
    (case redirect of
       None \<Rightarrow> st
     | Some r \<Rightarrow> (case state r of None \<Rightarrow> st | Some x \<Rightarrow> Some x))"

section \<open>Setters\<close>

text \<open>
  \<open>byRoom[rId].isOpen\<close> throws a \<open>TypeError\<close> when the room has no record, before
  anything is written.
\<close>

definition togglePanel ::
  "('st, 'room) collaborators \<Rightarrow> jsstr \<Rightarrow> 'st RightPanelStore \<Rightarrow> error + 'st RightPanelStore" where
  "togglePanel E roomId s =
    (let rId = coalesce roomId (viewedRoomId s)
     in case byRoom s (toKey rId) of
          None \<Rightarrow> Inl TypeError
        | Some r \<Rightarrow>
            Inr (emitAndUpdateSettings E
              (s\<lparr>byRoom := (byRoom s)(toKey rId \<mapsto> r\<lparr>isOpen := \<not> isOpen r\<rparr>)\<rparr>)))"

text \<open>\<open>Array.prototype.pop\<close> leaves an empty array empty.\<close>

definition popRightPanel ::
  "('st, 'room) collaborators \<Rightarrow> jsstr \<Rightarrow> 'st RightPanelStore \<Rightarrow> error + 'st RightPanelStore" where
  "popRightPanel E roomId s =
    (let rId = coalesce roomId (viewedRoomId s)
     in case byRoom s (toKey rId) of
          None \<Rightarrow> Inl TypeError
        | Some roomCache \<Rightarrow>
            Inr (emitAndUpdateSettings E
              (s\<lparr>byRoom := (byRoom s)(toKey rId \<mapsto>
                  roomCache\<lparr>history := butlast (history roomCache)\<rparr>)\<rparr>)))"

text \<open>
  When the room has no record, the new record is bound to the local variable
  \<open>roomCache\<close> only: \<open>byRoom\<close> is not written, and the store goes on to persist and
  notify.
\<close>

definition pushRightPanel ::
  "('st, 'room) collaborators \<Rightarrow> jsstr \<Rightarrow> IPanelState option \<Rightarrow> bool \<Rightarrow> jsstr \<Rightarrow>
    'st RightPanelStore \<Rightarrow> 'st RightPanelStore" where
  "pushRightPanel E ph panelState allowClose roomId s =
    (let rId = coalesce roomId (viewedRoomId s);
         redirect = getVerificationRedirect E \<lparr>phase = ph, state = panelState\<rparr>;
         targetPhase = redirectedPhase redirect ph;
         pState = redirectedState redirect panelState;
         (valid, s1) = isPhaseActionIsValid targetPhase s
     in if \<not> valid then s1
        else (case byRoom s1 (toKey rId) of
                Some roomCache \<Rightarrow>
                  emitAndUpdateSettings E
                    (s1\<lparr>byRoom := (byRoom s1)(toKey rId \<mapsto>
                        roomCache\<lparr>history := history roomCache
                                       @ [\<lparr>phase = targetPhase, state = pState\<rparr>],
                                   isOpen := (if allowClose then isOpen roomCache else True)\<rparr>)\<rparr>)
              | None \<Rightarrow> emitAndUpdateSettings E s1))"

text \<open>
  The update branch reads \<open>byRoom[rId].history\<close> and assigns to the \<open>state\<close> of its
  last element: a \<open>TypeError\<close> when the room has no record or an empty history (the
  phase compared may then have come from the room being viewed).
\<close>

definition setRightPanel ::
  "('st, 'room) collaborators \<Rightarrow> jsstr \<Rightarrow> IPanelState option \<Rightarrow> bool \<Rightarrow> jsstr \<Rightarrow>
    'st RightPanelStore \<Rightarrow> error + 'st RightPanelStore" where
  "setRightPanel E ph st allowClose roomId s =
    (let rId = coalesce roomId (viewedRoomId s);
         redirect = getVerificationRedirect E \<lparr>phase = ph, state = st\<rparr>;
         targetPhase = redirectedPhase redirect ph;
         panelState = redirectedState redirect st;
         (valid, s1) = isPhaseActionIsValid targetPhase s
     in if \<not> valid then Inr s1
        else if targetPhase = phase (currentPanel s1) \<and> allowClose \<and> panelState = None then
          togglePanel E rId s1
        else if targetPhase = phase (currentPanelForRoom s1 rId) \<and> panelState \<noteq> None then
          (case byRoom s1 (toKey rId) of
             None \<Rightarrow> Inl TypeError
           | Some r \<Rightarrow>
               (if history r = [] then Inl TypeError
                else Inr (emitAndUpdateSettings E
                  (s1\<lparr>byRoom := (byRoom s1)(toKey rId \<mapsto>
                      r\<lparr>history := butlast (history r)
                                     @ [(last (history r))\<lparr>state := panelState\<rparr>]\<rparr>)\<rparr>))))
        else if targetPhase \<noteq> phase (currentPanel s1) then
          Inr (setRightPanelCache E targetPhase panelState s1)
        else Inr s1)"

section \<open>The dispatcher callback\<close>

text \<open>
  Modelled from the spec: the enum \<open>Action\<close> is declared in the dispatcher's actions
  module, which is not among the sources; \<open>Action.ViewRoom\<close> is taken to differ from
  the literal \<open>'view_group'\<close>, the two being the room and the legacy group variant of
  the "view conversation" tag.
\<close>

datatype action = ViewRoom | ViewGroup | OtherAction string

record ActionPayload =
  action :: action
  room_id :: jsstr

definition onDispatch ::
  "('st, 'room) collaborators \<Rightarrow> ActionPayload \<Rightarrow> 'st RightPanelStore \<Rightarrow> 'st RightPanelStore" where
  "onDispatch E payload s =
    (case action payload of
       OtherAction a \<Rightarrow> s
     | _ \<Rightarrow>
         if room_id payload = viewedRoomId s then s
         else
           (let s1 =
                  (if (if isViewingRoom s then ViewRoom else ViewGroup) \<noteq> action payload then
                     (if action payload = ViewRoom
                          \<and> phase (currentPanel s) \<in> set MEMBER_INFO_PHASES then
                        setRightPanelCache E RoomMemberList (Some emptyState) s
                      else if action payload = ViewGroup
                          \<and> phase (currentPanel s) = GroupMemberInfo then
                        setRightPanelCache E GroupMemberList (Some emptyState) s
                      else s)
                   else s);
                s2 = s1\<lparr>viewedRoomId := room_id payload,
                        isViewingRoom := (action payload = ViewRoom)\<rparr>
            in if roomStoreToken s2
               then emitAndUpdateSettings E (loadCacheFromSettings E s2)
               else s2))"

section \<open>Calls in sequence\<close>

datatype call =
    SetRightPanel jsstr "IPanelState option" bool jsstr
  | PushRightPanel jsstr "IPanelState option" bool jsstr
  | PopRightPanel jsstr
  | TogglePanel jsstr

fun run :: "('st, 'room) collaborators \<Rightarrow> call \<Rightarrow> 'st RightPanelStore \<Rightarrow> error + 'st RightPanelStore" where
  "run E (SetRightPanel ph st allowClose roomId) s = setRightPanel E ph st allowClose roomId s"
| "run E (PushRightPanel ph st allowClose roomId) s = Inr (pushRightPanel E ph st allowClose roomId s)"
| "run E (PopRightPanel roomId) s = popRightPanel E roomId s"
| "run E (TogglePanel roomId) s = togglePanel E roomId s"

text \<open>A script of calls stops at the first one that throws.\<close>

fun runAll ::
  "('st, 'room) collaborators \<Rightarrow> call list \<Rightarrow> 'st RightPanelStore \<Rightarrow> error + 'st RightPanelStore" where
  "runAll E [] s = Inr s"
| "runAll E (c # cs) s = (case run E c s of Inl e \<Rightarrow> Inl e | Inr s' \<Rightarrow> runAll E cs s')"

fun isPop :: "call \<Rightarrow> bool" where
  "isPop (PopRightPanel roomId) = True"
| "isPop c = False"

section \<open>The invariant under study\<close>

text \<open>Every record the store holds has at least one history entry.\<close>

definition historiesNonEmpty :: "'st RightPanelStore \<Rightarrow> bool" where
  "historiesNonEmpty s = (\<forall>k r. byRoom s k = Some r \<longrightarrow> history r \<noteq> [])"

section \<open>Example stores\<close>

text \<open>
  Collaborators for the examples: a verification request is pending for one user only,
  the settings hold nothing and the client knows no room.
\<close>

definition demo :: "(unit, unit) collaborators" where
  "demo =
    \<lparr>pendingVerificationRequestForUser =
        (\<lambda>m. if m = Some (Member ''@bob:hs'') then Some (VerificationRequest 1) else None),
     convertToStoreRoom = (\<lambda>r. ()),
     convertToStateRoom = (\<lambda>v room. None),
     getValue = (\<lambda>name roomId. ()),
     getRoom = (\<lambda>roomId. None)\<rparr>"

definition card :: "jsstr \<Rightarrow> IPhaseAndState" where
  "card p = \<lparr>phase = p, state = Some emptyState\<rparr>"

definition bobState :: IPanelState where
  "bobState =
    \<lparr>member = Some (Member ''@bob:hs''), verificationRequest = None,
     otherFields = [(''source'', ''timeline'')]\<rparr>"

definition carolState :: IPanelState where
  "carolState =
    \<lparr>member = Some (Member ''@carol:hs''), verificationRequest = None, otherFields = []\<rparr>"

text \<open>A store that views room \<open>!a:hs\<close> in room mode and has sent nothing yet.\<close>

definition viewingA :: "(string \<rightharpoonup> IRightPanelForRoom) \<Rightarrow> unit RightPanelStore" where
  "viewingA m =
    \<lparr>viewedRoomId = Str ''!a:hs'', isViewingRoom = True, roomStoreToken = False,
     byRoom = m, global = None, sent = [], warned = []\<rparr>"

definition freshStore :: "unit RightPanelStore" where
  "freshStore = viewingA Map.empty"

definition twoRooms :: "unit RightPanelStore" where
  "twoRooms = viewingA
    [''!a:hs'' \<mapsto> \<lparr>history = [card RoomSummary], isOpen = True\<rparr>,
     ''!b:hs'' \<mapsto> \<lparr>history = [card RoomMemberList, card FilePanel], isOpen = False\<rparr>]"

definition memberInfoStore :: "unit RightPanelStore" where
  "memberInfoStore = viewingA
    [''!a:hs'' \<mapsto> \<lparr>history = [card RoomMemberList,
                                  \<lparr>phase = RoomMemberInfo, state = Some carolState\<rparr>],
                       isOpen = True\<rparr>,
     ''+g:hs'' \<mapsto> \<lparr>history = [card GroupRoomList], isOpen = False\<rparr>]"

definition verifyingStore :: "unit RightPanelStore" where
  "verifyingStore = viewingA
    [''!a:hs'' \<mapsto> \<lparr>history = [card RoomSummary, card EncryptionPanel], isOpen = True\<rparr>]"

text \<open>A store that views group \<open>+g:hs\<close> in group mode.\<close>

definition groupStore :: "unit RightPanelStore" where
  "groupStore =
    \<lparr>viewedRoomId = Str ''+g:hs'', isViewingRoom = False, roomStoreToken = False,
     byRoom = [''+g:hs'' \<mapsto> \<lparr>history = [card GroupMemberList], isOpen = True\<rparr>],
     global = None, sent = [], warned = []\<rparr>"

section \<open>Validity and redirect: basic facts\<close>

lemma member_nonempty: "k \<in> set RightPanelPhases \<Longrightarrow> k \<noteq> []"
  by (auto simp: RightPanelPhases_def)

lemma truthy_enumLookup:
  "truthyValue (enumLookup p)
    \<longleftrightarrow> toKey p \<in> set RightPanelPhases \<or> toKey p \<in> set ObjectPrototype"
  using member_nonempty by (auto simp: truthyValue_def enumLookup_def)

text \<open>
  A phase passes the check exactly when the enum object has a property of that name, own
  or inherited, and its family fits the mode; the store is returned as it was, or with one
  more warning.
\<close>

lemma valid_iff:
  "fst (isPhaseActionIsValid p s) \<longleftrightarrow>
    (toKey p \<in> set RightPanelPhases \<or> toKey p \<in> set ObjectPrototype)
    \<and> (p \<in> set GROUP_PHASES \<longleftrightarrow> \<not> isViewingRoom s)"
  by (auto simp: isPhaseActionIsValid_def truthy_enumLookup)

lemma isPhaseActionIsValid_True:
  "fst (isPhaseActionIsValid p s) \<Longrightarrow> isPhaseActionIsValid p s = (True, s)"
  by (auto simp: isPhaseActionIsValid_def split: if_splits)

lemma isPhaseActionIsValid_warning:
  "\<not> fst (isPhaseActionIsValid p s) \<Longrightarrow>
    isPhaseActionIsValid p s =
      (False, s\<lparr>warned := warned s @
         [if \<not> truthyValue (enumLookup p) then UnknownPhase p
          else if isViewingRoom s then GroupPhaseInRoom p else RoomPhaseInGroup p]\<rparr>)"
  by (cases "truthyValue (enumLookup p)"; cases "p \<in> set GROUP_PHASES"; cases "isViewingRoom s")
    (simp_all add: isPhaseActionIsValid_def)

lemma isPhaseActionIsValid_False:
  "\<not> fst (isPhaseActionIsValid p s) \<Longrightarrow>
    \<exists>w. isPhaseActionIsValid p s = (False, s\<lparr>warned := warned s @ [w]\<rparr>)"
  using isPhaseActionIsValid_warning by blast

lemma valid_RoomMemberInfo: "fst (isPhaseActionIsValid RoomMemberInfo s) \<longleftrightarrow> isViewingRoom s"
  by (simp add: valid_iff toKey_def RightPanelPhases_def GROUP_PHASES_def)

lemma valid_EncryptionPanel: "fst (isPhaseActionIsValid EncryptionPanel s) \<longleftrightarrow> isViewingRoom s"
  by (simp add: valid_iff toKey_def RightPanelPhases_def GROUP_PHASES_def)

lemma getVerificationRedirect_Some:
  assumes "getVerificationRedirect E pas = Some r"
  shows "phase pas = RoomMemberInfo \<and> phase r = EncryptionPanel \<and> (\<exists>x. state r = Some x)"
  using assms by (auto simp: getVerificationRedirect_def split: if_splits option.splits)

text \<open>A redirect never turns a valid request into an invalid one.\<close>

lemma valid_redirected:
  assumes "fst (isPhaseActionIsValid ph s)"
  shows "fst (isPhaseActionIsValid
            (redirectedPhase (getVerificationRedirect E \<lparr>phase = ph, state = st\<rparr>) ph) s)"
proof (cases "getVerificationRedirect E \<lparr>phase = ph, state = st\<rparr>")
  case None
  then show ?thesis using assms by (simp add: redirectedPhase_def)
next
  case (Some r)
  from getVerificationRedirect_Some[OF Some]
  have ph: "ph = RoomMemberInfo" and r: "phase r = EncryptionPanel" by simp_all
  have "isViewingRoom s" using assms ph by (simp only: valid_RoomMemberInfo)
  then have "fst (isPhaseActionIsValid EncryptionPanel s)" by (simp only: valid_EncryptionPanel)
  then show ?thesis using Some r by (simp add: redirectedPhase_def coalesce_def)
qed

lemma redirectedState_present: "redirectedState redirect (Some S) \<noteq> None"
  by (simp add: redirectedState_def split: option.splits)

lemma currentPanelForRoom_viewed: "currentPanelForRoom s (viewedRoomId s) = currentPanel s"
  by (cases "byRoom s (toKey (viewedRoomId s))")
    (simp_all add: currentPanelForRoom_def currentPanel_def roomPhaseHistory_def Let_def
      Suc_le_eq)

text \<open>Unfolding sets for evaluating the setters on the example stores.\<close>

lemmas js_defs = toKey_def coalesce_def truthy_def truthyValue_def enumLookup_def ObjectPrototype_def
  RightPanelPhases_def GROUP_PHASES_def MEMBER_INFO_PHASES_def

lemmas example_defs = viewingA_def card_def emptyState_def demo_def bobState_def carolState_def

lemmas setter_defs = pushRightPanel_def setRightPanel_def popRightPanel_def togglePanel_def
  setRightPanelCache_def emitAndUpdateSettings_def getVerificationRedirect_def
  redirectedPhase_def redirectedState_def isPhaseActionIsValid_def currentPanel_def
  currentPanelForRoom_def roomPhaseHistory_def noPanel_def Let_def

section \<open>Pushing onto a room without a record\<close>

text \<open>
  C1. The claim: on a fresh conversation each valid \<open>pushRightPanel\<close> creates the record
  if absent, the history grows by one per call, and the current panel shows the phase
  pushed last. The source builds the new record in the local variable \<open>roomCache\<close> and
  never stores it in \<open>byRoom\<close>. Evaluated on a store that views \<open>!a:hs\<close> in room mode
  and holds no record: after pushing \<open>RoomSummary\<close> and then \<open>FilePanel\<close>, both valid,
  \<open>byRoom\<close> is still empty, the current panel is still the sentinel with phase
  \<open>null\<close>, and each call has written the settings and emitted one update.
\<close>

theorem pushRightPanel_on_fresh_room_stores_nothing:
  "pushRightPanel demo RoomSummary None True Null freshStore
     = freshStore\<lparr>sent := [SetValue ''RightPanel.phasesGlobal'' Null DEVICE (),
                           SetValue ''RightPanel.phases'' (Str ''!a:hs'') ROOM_DEVICE (),
                           Emit]\<rparr>
   \<and> byRoom (pushRightPanel demo FilePanel None True Null
              (pushRightPanel demo RoomSummary None True Null freshStore)) ''!a:hs'' = None
   \<and> currentPanel (pushRightPanel demo FilePanel None True Null
              (pushRightPanel demo RoomSummary None True Null freshStore)) = noPanel"
  by (simp add: freshStore_def example_defs js_defs setter_defs)

text \<open>The same for any store and any valid request: without a record, \<open>byRoom\<close> stays as it is.\<close>

lemma pushRightPanel_without_record:
  assumes "byRoom s (toKey (coalesce roomId (viewedRoomId s))) = None"
  shows "byRoom (pushRightPanel E ph st allowClose roomId s) = byRoom s"
  using assms
  by (simp add: pushRightPanel_def emitAndUpdateSettings_def isPhaseActionIsValid_def Let_def)

section \<open>Toggling\<close>

text \<open>
  C9. When the target room has a record, \<open>togglePanel\<close> succeeds and negates the
  record's \<open>isOpen\<close>, leaving its history and every other record as they were; a second
  \<open>togglePanel\<close> succeeds as well and gives back the original \<open>byRoom\<close>, hence the
  original \<open>isOpen\<close>. The room viewed, the mode and the global record are untouched.
\<close>

theorem togglePanel_twice:
  assumes "byRoom s (toKey (coalesce roomId (viewedRoomId s))) = Some r"
  shows "\<exists>s1 s2. togglePanel E roomId s = Inr s1 \<and> togglePanel E roomId s1 = Inr s2
      \<and> byRoom s1 = (byRoom s)(toKey (coalesce roomId (viewedRoomId s))
                        \<mapsto> r\<lparr>isOpen := \<not> isOpen r\<rparr>)
      \<and> byRoom s2 = byRoom s
      \<and> viewedRoomId s2 = viewedRoomId s \<and> isViewingRoom s2 = isViewingRoom s
      \<and> global s2 = global s"
  using assms by (auto simp: togglePanel_def emitAndUpdateSettings_def Let_def)

theorem togglePanel_twice_witness:
  "byRoom twoRooms (toKey (coalesce (Str ''!b:hs'') (viewedRoomId twoRooms)))
      = Some \<lparr>history = [card RoomMemberList, card FilePanel], isOpen = False\<rparr>
   \<and> (\<exists>s1 s2. togglePanel demo (Str ''!b:hs'') twoRooms = Inr s1
      \<and> togglePanel demo (Str ''!b:hs'') s1 = Inr s2
      \<and> byRoom s1 = (byRoom twoRooms)(toKey (coalesce (Str ''!b:hs'') (viewedRoomId twoRooms))
            \<mapsto> \<lparr>history = [card RoomMemberList, card FilePanel], isOpen = False\<rparr>
                  \<lparr>isOpen := \<not> isOpen \<lparr>history = [card RoomMemberList, card FilePanel],
                                             isOpen = False\<rparr>\<rparr>)
      \<and> byRoom s2 = byRoom twoRooms
      \<and> viewedRoomId s2 = viewedRoomId twoRooms \<and> isViewingRoom s2 = isViewingRoom twoRooms
      \<and> global s2 = global twoRooms)"
proof -
  have h: "byRoom twoRooms (toKey (coalesce (Str ''!b:hs'') (viewedRoomId twoRooms)))
      = Some \<lparr>history = [card RoomMemberList, card FilePanel], isOpen = False\<rparr>"
    by (simp add: twoRooms_def viewingA_def toKey_def coalesce_def)
  show ?thesis by (rule conjI[OF h togglePanel_twice[OF h]])
qed

section \<open>Setting the phase already shown, without state and without leave to close\<close>

text \<open>
  C10. \<open>setRightPanel\<close> with the phase the viewed room currently shows, no state and
  \<open>allowClose = false\<close> returns without throwing and without touching any field of the
  store: nothing is written to the settings and no update is emitted. The toggle branch
  needs \<open>allowClose\<close>, the update branch needs a state, the reset branch needs a
  different phase. The only trace the call can leave is the warning of the validity check,
  when that phase does not fit the mode. The phase the target room shows plays no part.
\<close>

theorem setRightPanel_same_phase_is_noop:
  assumes "ph = phase (currentPanel s)"
  shows "\<exists>s'. setRightPanel E ph None False roomId s = Inr s' \<and> s'\<lparr>warned := warned s\<rparr> = s"
  using assms
  by (auto simp: setRightPanel_def Let_def isPhaseActionIsValid_def getVerificationRedirect_def
      redirectedPhase_def redirectedState_def split: prod.splits)

theorem setRightPanel_same_phase_is_noop_witness:
  "RoomSummary = phase (currentPanel twoRooms)
   \<and> (\<exists>s'. setRightPanel demo RoomSummary None False (Str ''!b:hs'') twoRooms = Inr s'
         \<and> s'\<lparr>warned := warned twoRooms\<rparr> = twoRooms)"
proof -
  have h: "RoomSummary = phase (currentPanel twoRooms)"
    by (simp add: twoRooms_def viewingA_def card_def currentPanel_def roomPhaseHistory_def
        toKey_def)
  show ?thesis by (rule conjI[OF h setRightPanel_same_phase_is_noop[OF h]])
qed

section \<open>Requests the validity check refuses\<close>

text \<open>
  C6. The claim: a request whose target phase, after redirect resolution, is not a
  recognised member of the enum, or is of the family opposite to the mode, is rejected
  with no change to the store and no update emitted. The check for an unknown phase is
  \<open>!RightPanelPhases[targetPhase]\<close>, which also finds the properties the enum object
  inherits. Evaluated on the store that views \<open>!a:hs\<close> in room mode, showing
  \<open>RoomSummary\<close>: \<open>constructor\<close> is no member of the enum, yet \<open>setRightPanel\<close>
  passes the check without a warning, replaces the record of the viewed room by the single
  entry \<open>constructor\<close>, open, writes the settings and emits an update.
\<close>

theorem setRightPanel_accepts_inherited_property_name:
  "''constructor'' \<notin> set RightPanelPhases
   \<and> isPhaseActionIsValid (Str ''constructor'') twoRooms = (True, twoRooms)
   \<and> setRightPanel demo (Str ''constructor'') None True Null twoRooms
     = Inr (twoRooms
         \<lparr>byRoom := (byRoom twoRooms)
            (''!a:hs'' \<mapsto> \<lparr>history = [card (Str ''constructor'')], isOpen = True\<rparr>),
          sent := [SetValue ''RightPanel.phasesGlobal'' Null DEVICE (),
                   SetValue ''RightPanel.phases'' (Str ''!a:hs'') ROOM_DEVICE (),
                   Emit]\<rparr>)
   \<and> byRoom twoRooms ''!a:hs'' = Some \<lparr>history = [card RoomSummary], isOpen = True\<rparr>"
  by (simp add: twoRooms_def example_defs js_defs setter_defs)

text \<open>
  For every other request the claim is about, the two setters do reject: when the target
  phase names neither a member of the enum nor an inherited property, or is a group phase
  while a room is viewed, or is not a group phase while no room is viewed, both return
  normally with the store unchanged in every field but the warning log, which gains
  exactly one entry.
\<close>

lemma refused_phase_changes_nothing:
  assumes tp: "tp = redirectedPhase (getVerificationRedirect E \<lparr>phase = ph, state = st\<rparr>) ph"
    and bad: "(toKey tp \<notin> set RightPanelPhases \<and> toKey tp \<notin> set ObjectPrototype)
        \<or> (tp \<in> set GROUP_PHASES \<and> isViewingRoom s)
        \<or> (tp \<notin> set GROUP_PHASES \<and> \<not> isViewingRoom s)"
  shows "\<exists>w. setRightPanel E ph st allowClose roomId s = Inr (s\<lparr>warned := warned s @ [w]\<rparr>)
           \<and> pushRightPanel E ph st allowClose roomId s = s\<lparr>warned := warned s @ [w]\<rparr>"
proof -
  have "\<not> fst (isPhaseActionIsValid tp s)"
    using bad by (auto simp: valid_iff)
  then obtain w where w: "isPhaseActionIsValid tp s = (False, s\<lparr>warned := warned s @ [w]\<rparr>)"
    using isPhaseActionIsValid_False by blast
  have "setRightPanel E ph st allowClose roomId s = Inr (s\<lparr>warned := warned s @ [w]\<rparr>)"
    using w by (simp add: setRightPanel_def Let_def tp[symmetric])
  moreover have "pushRightPanel E ph st allowClose roomId s = s\<lparr>warned := warned s @ [w]\<rparr>"
    using w by (simp add: pushRightPanel_def Let_def tp[symmetric])
  ultimately show ?thesis by blast
qed

text \<open>A group phase requested while a room is viewed, and a name no object has.\<close>

lemma refused_phase_changes_nothing_examples:
  "(\<exists>w. setRightPanel demo GroupMemberList None True Null twoRooms
            = Inr (twoRooms\<lparr>warned := warned twoRooms @ [w]\<rparr>)
        \<and> pushRightPanel demo GroupMemberList None True Null twoRooms
            = twoRooms\<lparr>warned := warned twoRooms @ [w]\<rparr>)
   \<and> (\<exists>w. setRightPanel demo (Str ''Bogus'') (Some bobState) False (Str ''!b:hs'') twoRooms
            = Inr (twoRooms\<lparr>warned := warned twoRooms @ [w]\<rparr>)
        \<and> pushRightPanel demo (Str ''Bogus'') (Some bobState) False (Str ''!b:hs'') twoRooms
            = twoRooms\<lparr>warned := warned twoRooms @ [w]\<rparr>)"
proof -
  have a1: "GroupMemberList
      = redirectedPhase (getVerificationRedirect demo \<lparr>phase = GroupMemberList, state = None\<rparr>)
          GroupMemberList"
    by (simp add: redirectedPhase_def getVerificationRedirect_def)
  have a2: "GroupMemberList \<in> set GROUP_PHASES" by (simp add: GROUP_PHASES_def)
  have a3: "isViewingRoom twoRooms" by (simp add: twoRooms_def viewingA_def)
  have b1: "Str ''Bogus''
      = redirectedPhase (getVerificationRedirect demo \<lparr>phase = Str ''Bogus'', state = Some bobState\<rparr>)
          (Str ''Bogus'')"
    by (simp add: redirectedPhase_def getVerificationRedirect_def)
  have b2: "toKey (Str ''Bogus'') \<notin> set RightPanelPhases \<and> toKey (Str ''Bogus'') \<notin> set ObjectPrototype"
    by (simp add: toKey_def RightPanelPhases_def ObjectPrototype_def)
  from a2 a3 have a: "(toKey GroupMemberList \<notin> set RightPanelPhases
          \<and> toKey GroupMemberList \<notin> set ObjectPrototype)
        \<or> (GroupMemberList \<in> set GROUP_PHASES \<and> isViewingRoom twoRooms)
        \<or> (GroupMemberList \<notin> set GROUP_PHASES \<and> \<not> isViewingRoom twoRooms)"
    by blast
  from b2 have b: "(toKey (Str ''Bogus'') \<notin> set RightPanelPhases
          \<and> toKey (Str ''Bogus'') \<notin> set ObjectPrototype)
        \<or> (Str ''Bogus'' \<in> set GROUP_PHASES \<and> isViewingRoom twoRooms)
        \<or> (Str ''Bogus'' \<notin> set GROUP_PHASES \<and> \<not> isViewingRoom twoRooms)"
    by blast
  show ?thesis
    using refused_phase_changes_nothing[OF a1 a] refused_phase_changes_nothing[OF b1 b]
    by blast
qed

section \<open>Push and pop\<close>

text \<open>
  C8. When the target room has a record and the requested phase is valid,
  \<open>pushRightPanel\<close> appends one entry to that record and the following
  \<open>popRightPanel\<close> on the same room succeeds and removes it again: the record has its
  former history, so the current panel of the target room and of the viewed room are the
  ones from before the push, with the same phase and the same state. \<open>popRightPanel\<close>
  keeps \<open>isOpen\<close> as the push left it, and every other record is untouched.
\<close>

theorem push_then_pop_restores:
  assumes rec: "byRoom s (toKey (coalesce roomId (viewedRoomId s))) = Some r"
    and valid: "fst (isPhaseActionIsValid ph s)"
  shows "\<exists>r1 s2.
      byRoom (pushRightPanel E ph st allowClose roomId s) (toKey (coalesce roomId (viewedRoomId s)))
        = Some r1
      \<and> length (history r1) = Suc (length (history r))
      \<and> popRightPanel E roomId (pushRightPanel E ph st allowClose roomId s) = Inr s2
      \<and> byRoom s2 = (byRoom s)(toKey (coalesce roomId (viewedRoomId s)) \<mapsto> r\<lparr>isOpen := isOpen r1\<rparr>)
      \<and> currentPanel s2 = currentPanel s
      \<and> currentPanelForRoom s2 (coalesce roomId (viewedRoomId s))
          = currentPanelForRoom s (coalesce roomId (viewedRoomId s))"
proof -
  let ?tp = "redirectedPhase (getVerificationRedirect E \<lparr>phase = ph, state = st\<rparr>) ph"
  let ?k = "toKey (coalesce roomId (viewedRoomId s))"
  have v: "isPhaseActionIsValid ?tp s = (True, s)"
    using valid_redirected[OF valid] by (rule isPhaseActionIsValid_True)
  define s1 where "s1 = pushRightPanel E ph st allowClose roomId s"
  have s1: "byRoom s1 = (byRoom s)(?k \<mapsto>
        r\<lparr>history := history r @ [\<lparr>phase = ?tp,
            state = redirectedState (getVerificationRedirect E \<lparr>phase = ph, state = st\<rparr>) st\<rparr>],
          isOpen := (if allowClose then isOpen r else True)\<rparr>)"
      and vid: "viewedRoomId s1 = viewedRoomId s"
    using rec v by (simp_all add: s1_def pushRightPanel_def Let_def emitAndUpdateSettings_def)
  show ?thesis
    unfolding s1_def[symmetric]
    using rec
    by (auto simp: s1 vid popRightPanel_def Let_def emitAndUpdateSettings_def
        currentPanel_def currentPanelForRoom_def roomPhaseHistory_def)
qed

theorem push_then_pop_restores_witness:
  "byRoom twoRooms (toKey (coalesce (Str ''!b:hs'') (viewedRoomId twoRooms)))
      = Some \<lparr>history = [card RoomMemberList, card FilePanel], isOpen = False\<rparr>
   \<and> fst (isPhaseActionIsValid RoomMemberInfo twoRooms)
   \<and> (\<exists>r1 s2.
      byRoom (pushRightPanel demo RoomMemberInfo (Some bobState) False (Str ''!b:hs'') twoRooms)
          (toKey (coalesce (Str ''!b:hs'') (viewedRoomId twoRooms))) = Some r1
      \<and> length (history r1)
          = Suc (length (history \<lparr>history = [card RoomMemberList, card FilePanel], isOpen = False\<rparr>))
      \<and> popRightPanel demo (Str ''!b:hs'')
          (pushRightPanel demo RoomMemberInfo (Some bobState) False (Str ''!b:hs'') twoRooms) = Inr s2
      \<and> byRoom s2 = (byRoom twoRooms)(toKey (coalesce (Str ''!b:hs'') (viewedRoomId twoRooms))
          \<mapsto> \<lparr>history = [card RoomMemberList, card FilePanel], isOpen = False\<rparr>
                \<lparr>isOpen := isOpen r1\<rparr>)
      \<and> currentPanel s2 = currentPanel twoRooms
      \<and> currentPanelForRoom s2 (coalesce (Str ''!b:hs'') (viewedRoomId twoRooms))
          = currentPanelForRoom twoRooms (coalesce (Str ''!b:hs'') (viewedRoomId twoRooms)))"
proof -
  have h: "byRoom twoRooms (toKey (coalesce (Str ''!b:hs'') (viewedRoomId twoRooms)))
      = Some \<lparr>history = [card RoomMemberList, card FilePanel], isOpen = False\<rparr>"
    by (simp add: twoRooms_def viewingA_def toKey_def coalesce_def)
  have v: "fst (isPhaseActionIsValid RoomMemberInfo twoRooms)"
    by (simp add: valid_RoomMemberInfo twoRooms_def viewingA_def)
  show ?thesis
    using h v push_then_pop_restores[OF h v, of demo "Some bobState" False] by blast
qed

section \<open>Replacing the history\<close>

text \<open>
  C3. The claim: when \<open>setRightPanel\<close> takes the reset branch for a target room \<open>r\<close>,
  the record of \<open>r\<close>, not of some other room, becomes the single requested entry, open.
  The toggle and the update branch address \<open>byRoom[rId]\<close>, but the reset branch calls
  \<open>setRightPanelCache\<close>, which writes \<open>byRoom[this.viewedRoomId]\<close>. Evaluated on a
  store that views \<open>!a:hs\<close> (showing \<open>RoomSummary\<close>) and also holds a record for
  \<open>!b:hs\<close> (history \<open>RoomMemberList\<close>, \<open>FilePanel\<close>): \<open>setRightPanel\<close> of
  \<open>NotificationPanel\<close> for room \<open>!b:hs\<close> replaces the record of \<open>!a:hs\<close> and leaves the
  record of \<open>!b:hs\<close> with its two entries, closed.
\<close>

theorem setRightPanel_resets_viewed_room_not_target:
  "setRightPanel demo NotificationPanel None True (Str ''!b:hs'') twoRooms
     = Inr (twoRooms
         \<lparr>byRoom := (byRoom twoRooms)
            (''!a:hs'' \<mapsto> \<lparr>history = [card NotificationPanel], isOpen = True\<rparr>),
          sent := [SetValue ''RightPanel.phasesGlobal'' Null DEVICE (),
                   SetValue ''RightPanel.phases'' (Str ''!a:hs'') ROOM_DEVICE (),
                   Emit]\<rparr>)
   \<and> byRoom twoRooms ''!b:hs''
     = Some \<lparr>history = [card RoomMemberList, card FilePanel], isOpen = False\<rparr>"
  by (simp add: twoRooms_def example_defs js_defs setter_defs)

text \<open>
  When the target is the room being viewed, the reset branch does what the claim says:
  a valid target phase that differs from the current one leaves exactly one entry, open,
  whatever the history was.
\<close>

lemma setRightPanel_hard_reset_viewed:
  assumes own: "coalesce roomId (viewedRoomId s) = viewedRoomId s"
    and tp: "tp = redirectedPhase (getVerificationRedirect E \<lparr>phase = ph, state = st\<rparr>) ph"
    and ps: "ps = redirectedState (getVerificationRedirect E \<lparr>phase = ph, state = st\<rparr>) st"
    and valid: "fst (isPhaseActionIsValid tp s)"
    and differs: "tp \<noteq> phase (currentPanel s)"
  shows "setRightPanel E ph st allowClose roomId s = Inr (setRightPanelCache E tp ps s)"
proof -
  have v: "isPhaseActionIsValid tp s = (True, s)"
    using valid by (rule isPhaseActionIsValid_True)
  show ?thesis
    using v differs
    by (simp add: setRightPanel_def Let_def tp[symmetric] ps[symmetric] own
        currentPanelForRoom_viewed)
qed

lemma setRightPanelCache_record:
  "byRoom (setRightPanelCache E tp ps s) (toKey (viewedRoomId s))
    = Some \<lparr>history = [\<lparr>phase = tp,
                state = Some (case ps of None \<Rightarrow> emptyState | Some p \<Rightarrow> p)\<rparr>],
             isOpen = True\<rparr>"
  by (simp add: setRightPanelCache_def emitAndUpdateSettings_def Let_def)

section \<open>Histories that become empty\<close>

lemma historiesNonEmpty_emit [simp]:
  "historiesNonEmpty (emitAndUpdateSettings E s) = historiesNonEmpty s"
  by (simp add: historiesNonEmpty_def emitAndUpdateSettings_def Let_def)

lemma historiesNonEmpty_warned [simp]:
  "historiesNonEmpty (s\<lparr>warned := w\<rparr>) = historiesNonEmpty s"
  by (simp add: historiesNonEmpty_def)

lemma historiesNonEmpty_update:
  "historiesNonEmpty s \<Longrightarrow> history r \<noteq> [] \<Longrightarrow>
    historiesNonEmpty (s\<lparr>byRoom := (byRoom s)(k \<mapsto> r)\<rparr>)"
  by (simp add: historiesNonEmpty_def)

lemma historiesNonEmpty_valid:
  "historiesNonEmpty (snd (isPhaseActionIsValid p s)) = historiesNonEmpty s"
  by (simp add: isPhaseActionIsValid_def)

lemma togglePanel_nonempty:
  assumes "historiesNonEmpty s" "togglePanel E roomId s = Inr s'"
  shows "historiesNonEmpty s'"
proof -
  obtain r where r: "byRoom s (toKey (coalesce roomId (viewedRoomId s))) = Some r"
    using assms(2) by (auto simp: togglePanel_def Let_def split: option.splits)
  then have "history r \<noteq> []" using assms(1) by (auto simp: historiesNonEmpty_def)
  then have "historiesNonEmpty (s\<lparr>byRoom := (byRoom s)(toKey (coalesce roomId (viewedRoomId s))
      \<mapsto> r\<lparr>isOpen := \<not> isOpen r\<rparr>)\<rparr>)"
    using assms(1) by (intro historiesNonEmpty_update) simp_all
  then show ?thesis using assms(2) r by (auto simp: togglePanel_def Let_def)
qed

lemma setRightPanelCache_nonempty:
  "historiesNonEmpty s \<Longrightarrow> historiesNonEmpty (setRightPanelCache E p st s)"
  by (simp add: setRightPanelCache_def historiesNonEmpty_update)

lemma pushRightPanel_nonempty:
  assumes "historiesNonEmpty s"
  shows "historiesNonEmpty (pushRightPanel E ph st allowClose roomId s)"
proof -
  obtain v s1 where v: "isPhaseActionIsValid
      (redirectedPhase (getVerificationRedirect E \<lparr>phase = ph, state = st\<rparr>) ph) s = (v, s1)"
    by (cases "isPhaseActionIsValid
      (redirectedPhase (getVerificationRedirect E \<lparr>phase = ph, state = st\<rparr>) ph) s")
  have s1: "historiesNonEmpty s1"
    using historiesNonEmpty_valid[of "redirectedPhase (getVerificationRedirect E \<lparr>phase = ph, state = st\<rparr>) ph" s]
      v assms by simp
  show ?thesis
    using s1 v
    by (auto simp: pushRightPanel_def Let_def historiesNonEmpty_update split: option.splits)
qed

lemma setRightPanel_nonempty:
  assumes "historiesNonEmpty s" "setRightPanel E ph st allowClose roomId s = Inr s'"
  shows "historiesNonEmpty s'"
proof -
  obtain v s1 where v: "isPhaseActionIsValid
      (redirectedPhase (getVerificationRedirect E \<lparr>phase = ph, state = st\<rparr>) ph) s = (v, s1)"
    by (cases "isPhaseActionIsValid
      (redirectedPhase (getVerificationRedirect E \<lparr>phase = ph, state = st\<rparr>) ph) s")
  have s1: "historiesNonEmpty s1"
    using historiesNonEmpty_valid[of "redirectedPhase (getVerificationRedirect E \<lparr>phase = ph, state = st\<rparr>) ph" s]
      v assms by simp
  show ?thesis
    using s1 v assms(2)
    by (auto simp: setRightPanel_def Let_def historiesNonEmpty_update setRightPanelCache_nonempty
        dest: togglePanel_nonempty split: option.splits if_splits)
qed

lemma butlast_nonempty: "butlast xs \<noteq> [] \<longleftrightarrow> 2 \<le> length xs"
  by (cases xs rule: rev_cases) (auto simp: Suc_le_eq)

text \<open>
  C2. The claim: no sequence of \<open>setRightPanel\<close>, \<open>pushRightPanel\<close>, \<open>popRightPanel\<close>
  and \<open>togglePanel\<close> calls ever leaves a record with an empty history; in particular
  \<open>popRightPanel\<close> never removes the last remaining entry. \<open>popRightPanel\<close> pops
  without looking at the length: on the store whose viewed room \<open>!a:hs\<close> has the
  single entry \<open>RoomSummary\<close> it succeeds and leaves that record with no entry.
\<close>

theorem popRightPanel_empties_history:
  "byRoom twoRooms ''!a:hs'' = Some \<lparr>history = [card RoomSummary], isOpen = True\<rparr>
   \<and> popRightPanel demo Null twoRooms
     = Inr (twoRooms
         \<lparr>byRoom := (byRoom twoRooms)(''!a:hs'' \<mapsto> \<lparr>history = [], isOpen = True\<rparr>),
          sent := [SetValue ''RightPanel.phasesGlobal'' Null DEVICE (),
                   SetValue ''RightPanel.phases'' (Str ''!a:hs'') ROOM_DEVICE (),
                   Emit]\<rparr>)"
  by (simp add: twoRooms_def example_defs js_defs setter_defs)

text \<open>
  C2, as amended. From a store in which every record has a non-empty history, a call of
  \<open>setRightPanel\<close>, \<open>pushRightPanel\<close> or \<open>togglePanel\<close> that returns leaves every
  record with a non-empty history. A \<open>popRightPanel\<close> that returns has removed exactly
  the last entry of the target record and changed no other record, so the histories are
  all non-empty afterwards exactly when the target had at least two entries.
\<close>

theorem mutators_keep_histories_nonempty:
  assumes inv: "historiesNonEmpty s" and run: "run E c s = Inr s'"
  shows "case c of
      PopRightPanel roomId \<Rightarrow>
        (\<exists>r. byRoom s (toKey (coalesce roomId (viewedRoomId s))) = Some r
           \<and> byRoom s' = (byRoom s)(toKey (coalesce roomId (viewedRoomId s))
                \<mapsto> r\<lparr>history := butlast (history r)\<rparr>)
           \<and> (historiesNonEmpty s' \<longleftrightarrow> 2 \<le> length (history r)))
    | _ \<Rightarrow> historiesNonEmpty s'"
proof (cases c)
  case (SetRightPanel ph st allowClose roomId)
  then show ?thesis using inv run by (simp add: setRightPanel_nonempty)
next
  case (PushRightPanel ph st allowClose roomId)
  then show ?thesis using inv run by (auto simp: pushRightPanel_nonempty)
next
  case (PopRightPanel roomId)
  let ?k = "toKey (coalesce roomId (viewedRoomId s))"
  from run PopRightPanel obtain r where r: "byRoom s ?k = Some r"
    by (auto simp: popRightPanel_def Let_def split: option.splits)
  have s': "byRoom s' = (byRoom s)(?k \<mapsto> r\<lparr>history := butlast (history r)\<rparr>)"
    using run PopRightPanel r by (auto simp: popRightPanel_def Let_def emitAndUpdateSettings_def)
  have "historiesNonEmpty s' \<longleftrightarrow> butlast (history r) \<noteq> []"
    using inv by (auto simp: historiesNonEmpty_def s')
  then show ?thesis using PopRightPanel r s' by (simp add: butlast_nonempty)
next
  case (TogglePanel roomId)
  then show ?thesis using inv run by (simp add: togglePanel_nonempty)
qed


theorem mutators_keep_histories_nonempty_witness:
  "historiesNonEmpty twoRooms
   \<and> (\<exists>s'. run demo (SetRightPanel FilePanel (Some carolState) True Null) twoRooms = Inr s'
         \<and> historiesNonEmpty s')
   \<and> (\<exists>s'. run demo (PopRightPanel (Str ''!b:hs'')) twoRooms = Inr s' \<and> historiesNonEmpty s')
   \<and> (\<exists>s'. run demo (PopRightPanel Null) twoRooms = Inr s' \<and> \<not> historiesNonEmpty s')"
proof -
  have inv: "historiesNonEmpty twoRooms"
    by (simp add: historiesNonEmpty_def twoRooms_def viewingA_def)
  have "\<exists>s'. run demo (SetRightPanel FilePanel (Some carolState) True Null) twoRooms = Inr s'"
    by (simp add: twoRooms_def example_defs js_defs setter_defs)
  then obtain s1 where s1: "run demo (SetRightPanel FilePanel (Some carolState) True Null) twoRooms = Inr s1"
    by blast
  have h1: "historiesNonEmpty s1"
    using mutators_keep_histories_nonempty[OF inv s1] by simp
  have "\<exists>s'. run demo (PopRightPanel (Str ''!b:hs'')) twoRooms = Inr s'"
    by (simp add: twoRooms_def viewingA_def popRightPanel_def toKey_def coalesce_def Let_def)
  then obtain s2 where s2: "run demo (PopRightPanel (Str ''!b:hs'')) twoRooms = Inr s2"
    by blast
  have h2: "historiesNonEmpty s2"
    using mutators_keep_histories_nonempty[OF inv s2]
    by (auto simp: twoRooms_def viewingA_def toKey_def coalesce_def)
  have "\<exists>s'. run demo (PopRightPanel Null) twoRooms = Inr s'"
    by (simp add: twoRooms_def viewingA_def popRightPanel_def toKey_def coalesce_def Let_def)
  then obtain s3 where s3: "run demo (PopRightPanel Null) twoRooms = Inr s3"
    by blast
  have h3: "\<not> historiesNonEmpty s3"
    using mutators_keep_histories_nonempty[OF inv s3]
    by (auto simp: twoRooms_def viewingA_def toKey_def coalesce_def)
  show ?thesis using inv s1 h1 s2 h2 s3 h3 by blast
qed

text \<open>Hence a script without \<open>popRightPanel\<close> that runs to its end keeps the invariant.\<close>

lemma runAll_without_pop_nonempty:
  assumes "historiesNonEmpty s" "runAll E cs s = Inr s'" "list_all (\<lambda>c. \<not> isPop c) cs"
  shows "historiesNonEmpty s'"
  using assms
proof (induction cs arbitrary: s)
  case Nil
  then show ?case by simp
next
  case (Cons c cs)
  then obtain s1 where s1: "run E c s = Inr s1" and rest: "runAll E cs s1 = Inr s'"
    by (auto split: sum.splits)
  have "historiesNonEmpty s1"
    using Cons.prems(1,3) s1 setRightPanel_nonempty togglePanel_nonempty pushRightPanel_nonempty
    by (cases c) auto
  then show ?case using Cons.IH rest Cons.prems(3) by simp
qed

section \<open>Updating the state in place\<close>

text \<open>
  C7. The claim: \<open>setRightPanel\<close> with a state \<open>S\<close> and a phase that, after redirect
  resolution, equals the current phase of the target record keeps the history length and
  the top phase and leaves the current state equal to \<open>S\<close>. When the redirect fires, the
  state written is the redirect's, not \<open>S\<close>: on the store whose viewed room shows
  \<open>EncryptionPanel\<close>, requesting \<open>RoomMemberInfo\<close> for a member with a pending
  verification request resolves to \<open>EncryptionPanel\<close>, takes the update branch and
  stores the member and the request, dropping the other fields of the state given.
\<close>

theorem setRightPanel_update_stores_redirect_state:
  "phase (currentPanel verifyingStore) = EncryptionPanel
   \<and> redirectedPhase (getVerificationRedirect demo \<lparr>phase = RoomMemberInfo, state = Some bobState\<rparr>)
       RoomMemberInfo = EncryptionPanel
   \<and> setRightPanel demo RoomMemberInfo (Some bobState) True Null verifyingStore
    = Inr (verifyingStore
         \<lparr>byRoom := (byRoom verifyingStore)(''!a:hs'' \<mapsto>
             \<lparr>history = [card RoomSummary,
                  \<lparr>phase = EncryptionPanel,
                   state = Some \<lparr>member = Some (Member ''@bob:hs''),
                                 verificationRequest = Some (VerificationRequest 1),
                                 otherFields = []\<rparr>\<rparr>],
               isOpen = True\<rparr>),
          sent := [SetValue ''RightPanel.phasesGlobal'' Null DEVICE (),
                   SetValue ''RightPanel.phases'' (Str ''!a:hs'') ROOM_DEVICE (),
                   Emit]\<rparr>)
   \<and> bobState \<noteq> \<lparr>member = Some (Member ''@bob:hs''),
                    verificationRequest = Some (VerificationRequest 1), otherFields = []\<rparr>"
  by (simp add: verifyingStore_def example_defs js_defs setter_defs)

text \<open>
  C7, as amended. Let the target phase and the panel state be the requested phase and the
  given state \<open>S\<close> after redirect resolution. If the target room has a record with a
  non-empty history whose top phase is the target phase, and that phase is valid, then
  \<open>setRightPanel\<close> returns with only the target record changed: its history has the
  same length and the same entries below the top, the top keeps its phase and carries the
  panel state, and \<open>isOpen\<close> is as before. The panel state is \<open>S\<close> itself whenever no
  redirect fires.
\<close>

theorem setRightPanel_updates_state_in_place:
  assumes rec: "byRoom s (toKey (coalesce roomId (viewedRoomId s))) = Some r"
    and ne: "history r \<noteq> []"
    and tp: "tp = redirectedPhase (getVerificationRedirect E \<lparr>phase = ph, state = Some S\<rparr>) ph"
    and ps: "ps = redirectedState (getVerificationRedirect E \<lparr>phase = ph, state = Some S\<rparr>) (Some S)"
    and valid: "fst (isPhaseActionIsValid tp s)"
    and same: "tp = phase (last (history r))"
  shows "\<exists>s' r'. setRightPanel E ph (Some S) allowClose roomId s = Inr s'
      \<and> byRoom s' = (byRoom s)(toKey (coalesce roomId (viewedRoomId s)) \<mapsto> r')
      \<and> length (history r') = length (history r)
      \<and> butlast (history r') = butlast (history r)
      \<and> phase (last (history r')) = phase (last (history r))
      \<and> state (last (history r')) = ps
      \<and> isOpen r' = isOpen r
      \<and> currentPanelForRoom s' (coalesce roomId (viewedRoomId s)) = (last (history r))\<lparr>state := ps\<rparr>
      \<and> (getVerificationRedirect E \<lparr>phase = ph, state = Some S\<rparr> = None \<longrightarrow> ps = Some S)"
proof -
  let ?rId = "coalesce roomId (viewedRoomId s)"
  let ?r' = "r\<lparr>history := butlast (history r) @ [(last (history r))\<lparr>state := ps\<rparr>]\<rparr>"
  have v: "isPhaseActionIsValid tp s = (True, s)"
    using valid by (rule isPhaseActionIsValid_True)
  have "ps \<noteq> None" unfolding ps by (rule redirectedState_present)
  then obtain y where present: "ps = Some y" by blast
  have cur: "phase (currentPanelForRoom s ?rId) = tp"
    using rec ne same by (simp add: currentPanelForRoom_def)
  have res: "setRightPanel E ph (Some S) allowClose roomId s
      = Inr (emitAndUpdateSettings E (s\<lparr>byRoom := (byRoom s)(toKey ?rId \<mapsto> ?r')\<rparr>))"
    using v cur rec ne
    by (simp add: setRightPanel_def Let_def tp[symmetric] ps[symmetric] present)
  have by': "byRoom (emitAndUpdateSettings E (s\<lparr>byRoom := (byRoom s)(toKey ?rId \<mapsto> ?r')\<rparr>))
      = (byRoom s)(toKey ?rId \<mapsto> ?r')"
    by (simp add: emitAndUpdateSettings_def Let_def)
  have cp: "currentPanelForRoom (emitAndUpdateSettings E (s\<lparr>byRoom := (byRoom s)(toKey ?rId \<mapsto> ?r')\<rparr>)) ?rId
      = (last (history r))\<lparr>state := ps\<rparr>"
    by (simp add: currentPanelForRoom_def by')
  have len: "length (history ?r') = length (history r)"
    using ne by simp
  have nored: "getVerificationRedirect E \<lparr>phase = ph, state = Some S\<rparr> = None \<longrightarrow> ps = Some S"
    by (simp add: ps redirectedState_def)
  show ?thesis
    using res by' cp len nored by (intro exI[of _ "emitAndUpdateSettings E (s\<lparr>byRoom := (byRoom s)(toKey ?rId \<mapsto> ?r')\<rparr>)"] exI[of _ ?r']) simp
qed

theorem setRightPanel_updates_state_in_place_witness:
  "byRoom twoRooms (toKey (coalesce (Str ''!b:hs'') (viewedRoomId twoRooms)))
      = Some \<lparr>history = [card RoomMemberList, card FilePanel], isOpen = False\<rparr>
   \<and> fst (isPhaseActionIsValid FilePanel twoRooms)
   \<and> FilePanel = phase (last [card RoomMemberList, card FilePanel])
   \<and> (\<exists>s' r'. setRightPanel demo FilePanel (Some carolState) True (Str ''!b:hs'') twoRooms = Inr s'
        \<and> byRoom s' = (byRoom twoRooms)(''!b:hs'' \<mapsto> r')
        \<and> length (history r') = 2
        \<and> butlast (history r') = [card RoomMemberList]
        \<and> phase (last (history r')) = FilePanel
        \<and> state (last (history r')) = Some carolState
        \<and> isOpen r' = False)"
proof -
  let ?r = "\<lparr>history = [card RoomMemberList, card FilePanel], isOpen = False\<rparr>"
  have k: "toKey (coalesce (Str ''!b:hs'') (viewedRoomId twoRooms)) = ''!b:hs''"
    by (simp add: toKey_def coalesce_def)
  have rec: "byRoom twoRooms (toKey (coalesce (Str ''!b:hs'') (viewedRoomId twoRooms))) = Some ?r"
    by (simp add: toKey_def coalesce_def twoRooms_def viewingA_def)
  have ne: "history ?r \<noteq> []" by simp
  have tp: "FilePanel
      = redirectedPhase (getVerificationRedirect demo \<lparr>phase = FilePanel, state = Some carolState\<rparr>)
          FilePanel"
    by (simp add: redirectedPhase_def getVerificationRedirect_def)
  have ps: "Some carolState
      = redirectedState (getVerificationRedirect demo \<lparr>phase = FilePanel, state = Some carolState\<rparr>)
          (Some carolState)"
    by (simp add: redirectedState_def getVerificationRedirect_def)
  have valid: "fst (isPhaseActionIsValid FilePanel twoRooms)"
    by (simp add: valid_iff toKey_def RightPanelPhases_def GROUP_PHASES_def twoRooms_def viewingA_def)
  have same: "FilePanel = phase (last (history ?r))" by (simp add: card_def)
  from setRightPanel_updates_state_in_place[OF rec ne tp ps valid same, of True]
  obtain s' r' where
    "setRightPanel demo FilePanel (Some carolState) True (Str ''!b:hs'') twoRooms = Inr s'"
    "byRoom s' = (byRoom twoRooms)(''!b:hs'' \<mapsto> r')"
    "length (history r') = 2"
    "butlast (history r') = [card RoomMemberList]"
    "phase (last (history r')) = FilePanel"
    "state (last (history r')) = Some carolState"
    "isOpen r' = False"
    unfolding k by (auto simp: card_def)
  then show ?thesis using rec valid same by auto
qed

section \<open>The verification redirect\<close>

lemma currentPanel_emit [simp]:
  "currentPanel (emitAndUpdateSettings E s) = currentPanel s"
  by (simp add: currentPanel_def roomPhaseHistory_def emitAndUpdateSettings_def Let_def)

lemma currentPanel_viewed_record:
  "currentPanel (s\<lparr>byRoom := (byRoom s)(toKey (viewedRoomId s) \<mapsto> r)\<rparr>)
    = (if history r = [] then noPanel else last (history r))"
  by (simp add: currentPanel_def roomPhaseHistory_def Suc_le_eq)

lemma currentPanel_record:
  assumes "phase (currentPanel s) \<noteq> Null"
  shows "\<exists>r. byRoom s (toKey (viewedRoomId s)) = Some r \<and> history r \<noteq> []
            \<and> currentPanel s = last (history r)"
  using assms
  by (cases "byRoom s (toKey (viewedRoomId s))")
    (auto simp: currentPanel_def roomPhaseHistory_def noPanel_def Let_def Suc_le_eq
      split: if_splits)

lemma setRightPanel_update:
  assumes rec: "byRoom s (toKey (coalesce roomId (viewedRoomId s))) = Some r"
    and ne: "history r \<noteq> []"
    and tp: "tp = redirectedPhase (getVerificationRedirect E \<lparr>phase = ph, state = st\<rparr>) ph"
    and ps: "Some y = redirectedState (getVerificationRedirect E \<lparr>phase = ph, state = st\<rparr>) st"
    and valid: "fst (isPhaseActionIsValid tp s)"
    and same: "tp = phase (last (history r))"
  shows "setRightPanel E ph st allowClose roomId s
    = Inr (emitAndUpdateSettings E
        (s\<lparr>byRoom := (byRoom s)(toKey (coalesce roomId (viewedRoomId s)) \<mapsto>
            r\<lparr>history := butlast (history r) @ [(last (history r))\<lparr>state := Some y\<rparr>]\<rparr>)\<rparr>))"
proof -
  have v: "isPhaseActionIsValid tp s = (True, s)"
    using valid by (rule isPhaseActionIsValid_True)
  have cur: "phase (currentPanelForRoom s (coalesce roomId (viewedRoomId s))) = tp"
    using rec ne same by (simp add: currentPanelForRoom_def)
  show ?thesis
    using v cur rec ne
    by (simp add: setRightPanel_def Let_def tp[symmetric] ps[symmetric])
qed

lemma redirect_member:
  assumes "member S = Some M"
  shows "getVerificationRedirect E \<lparr>phase = RoomMemberInfo, state = Some S\<rparr>
    = (case pendingVerificationRequestForUser E (Some M) of
         None \<Rightarrow> None
       | Some R \<Rightarrow> Some \<lparr>phase = EncryptionPanel,
            state = Some \<lparr>member = Some M, verificationRequest = Some R, otherFields = []\<rparr>\<rparr>)"
  using assms by (simp add: getVerificationRedirect_def split: option.splits)

text \<open>
  C5. The claim: every \<open>setRightPanel\<close> or \<open>pushRightPanel\<close> that requests
  \<open>RoomMemberInfo\<close> for a member with a pending verification request ends with the
  current panel showing \<open>EncryptionPanel\<close> with the request and the member. The
  redirect runs before the validity check, and the check refuses what the redirect
  produced when the store is in group mode: on the store that views a group, both calls
  return with one warning logged and the current panel still \<open>GroupMemberList\<close>.
\<close>

theorem redirect_rejected_in_group_mode:
  "pendingVerificationRequestForUser demo (member bobState) = Some (VerificationRequest 1)
   \<and> setRightPanel demo RoomMemberInfo (Some bobState) True Null groupStore
       = Inr (groupStore\<lparr>warned := [RoomPhaseInGroup EncryptionPanel]\<rparr>)
   \<and> pushRightPanel demo RoomMemberInfo (Some bobState) True Null groupStore
       = groupStore\<lparr>warned := [RoomPhaseInGroup EncryptionPanel]\<rparr>
   \<and> currentPanel (groupStore\<lparr>warned := [RoomPhaseInGroup EncryptionPanel]\<rparr>)
       = card GroupMemberList"
  by (simp add: groupStore_def example_defs js_defs setter_defs)

text \<open>
  C5, as amended. While a room is viewed, for a request of \<open>RoomMemberInfo\<close> with a
  state whose member is \<open>M\<close>, addressed to the room being viewed: \<open>setRightPanel\<close>
  returns and the current panel is then \<open>EncryptionPanel\<close> with exactly the pending
  request and \<open>M\<close> when a request is pending for \<open>M\<close>, and \<open>RoomMemberInfo\<close> with the
  state as given when none is; the same holds after \<open>pushRightPanel\<close> when the viewed
  room already has a record.
\<close>

theorem verification_redirect_in_room_mode:
  assumes room: "isViewingRoom s"
    and mem: "member S = Some M"
    and own: "coalesce roomId (viewedRoomId s) = viewedRoomId s"
    and exp: "expected = (case pendingVerificationRequestForUser E (Some M) of
        Some R \<Rightarrow> \<lparr>phase = EncryptionPanel,
            state = Some \<lparr>member = Some M, verificationRequest = Some R, otherFields = []\<rparr>\<rparr>
      | None \<Rightarrow> \<lparr>phase = RoomMemberInfo, state = Some S\<rparr>)"
  shows "(\<exists>s'. setRightPanel E RoomMemberInfo (Some S) allowClose roomId s = Inr s'
            \<and> currentPanel s' = expected)
       \<and> (byRoom s (toKey (viewedRoomId s)) \<noteq> None \<longrightarrow>
            currentPanel (pushRightPanel E RoomMemberInfo (Some S) allowClose roomId s) = expected)"
proof -
  let ?rd = "getVerificationRedirect E \<lparr>phase = RoomMemberInfo, state = Some S\<rparr>"
  define tp where "tp = redirectedPhase ?rd RoomMemberInfo"
  define y where "y = the (redirectedState ?rd (Some S))"
  have ps: "Some y = redirectedState ?rd (Some S)"
    using redirectedState_present[of ?rd S] by (auto simp: y_def)
  have expected: "expected = \<lparr>phase = tp, state = Some y\<rparr>"
    using ps by (simp add: exp tp_def redirect_member[OF mem] redirectedPhase_def
        redirectedState_def coalesce_def split: option.splits)
  have "tp = RoomMemberInfo \<or> tp = EncryptionPanel"
    by (simp add: tp_def redirect_member[OF mem] redirectedPhase_def coalesce_def
        split: option.splits)
  then have valid: "fst (isPhaseActionIsValid tp s)"
    using room valid_RoomMemberInfo valid_EncryptionPanel by blast
  have notNull: "tp \<noteq> Null"
    using \<open>tp = RoomMemberInfo \<or> tp = EncryptionPanel\<close> by auto
  have set_part: "\<exists>s'. setRightPanel E RoomMemberInfo (Some S) allowClose roomId s = Inr s'
            \<and> currentPanel s' = expected"
  proof (cases "tp = phase (currentPanel s)")
    case True
    then have "phase (currentPanel s) \<noteq> Null" using notNull by simp
    from currentPanel_record[OF this] obtain r where
      r: "byRoom s (toKey (viewedRoomId s)) = Some r" "history r \<noteq> []"
        "currentPanel s = last (history r)"
      by blast
    have rec: "byRoom s (toKey (coalesce roomId (viewedRoomId s))) = Some r"
      using r(1) own by simp
    have same: "tp = phase (last (history r))" using True r(3) by simp
    have "(last (history r))\<lparr>state := Some y\<rparr> = \<lparr>phase = tp, state = Some y\<rparr>"
      using same by simp
    then show ?thesis
      using setRightPanel_update[OF rec r(2) tp_def ps valid same, of allowClose]
      by (simp add: own currentPanel_viewed_record expected)
  next
    case False
    show ?thesis
      using setRightPanel_hard_reset_viewed[OF own tp_def refl valid False, of allowClose]
      by (simp add: ps[symmetric] setRightPanelCache_def currentPanel_viewed_record expected)
  qed
  have push_part: "byRoom s (toKey (viewedRoomId s)) \<noteq> None \<longrightarrow>
      currentPanel (pushRightPanel E RoomMemberInfo (Some S) allowClose roomId s) = expected"
  proof
    assume "byRoom s (toKey (viewedRoomId s)) \<noteq> None"
    then obtain r where r: "byRoom s (toKey (viewedRoomId s)) = Some r" by blast
    have v: "isPhaseActionIsValid tp s = (True, s)"
      using valid by (rule isPhaseActionIsValid_True)
    show "currentPanel (pushRightPanel E RoomMemberInfo (Some S) allowClose roomId s) = expected"
      using v r
      by (simp add: pushRightPanel_def Let_def tp_def[symmetric] ps[symmetric] own
          currentPanel_viewed_record expected)
  qed
  show ?thesis using set_part push_part by blast
qed

theorem verification_redirect_in_room_mode_witness:
  "isViewingRoom twoRooms
   \<and> coalesce Null (viewedRoomId twoRooms) = viewedRoomId twoRooms
   \<and> byRoom twoRooms (toKey (viewedRoomId twoRooms)) \<noteq> None
   \<and> member bobState = Some (Member ''@bob:hs'')
   \<and> pendingVerificationRequestForUser demo (Some (Member ''@bob:hs'')) = Some (VerificationRequest 1)
   \<and> (\<exists>s'. setRightPanel demo RoomMemberInfo (Some bobState) True Null twoRooms = Inr s'
        \<and> currentPanel s' = \<lparr>phase = EncryptionPanel,
              state = Some \<lparr>member = Some (Member ''@bob:hs''),
                            verificationRequest = Some (VerificationRequest 1),
                            otherFields = []\<rparr>\<rparr>)
   \<and> currentPanel (pushRightPanel demo RoomMemberInfo (Some bobState) True Null twoRooms)
        = \<lparr>phase = EncryptionPanel,
              state = Some \<lparr>member = Some (Member ''@bob:hs''),
                            verificationRequest = Some (VerificationRequest 1),
                            otherFields = []\<rparr>\<rparr>
   \<and> member carolState = Some (Member ''@carol:hs'')
   \<and> pendingVerificationRequestForUser demo (Some (Member ''@carol:hs'')) = None
   \<and> (\<exists>s'. setRightPanel demo RoomMemberInfo (Some carolState) True Null twoRooms = Inr s'
        \<and> currentPanel s' = \<lparr>phase = RoomMemberInfo, state = Some carolState\<rparr>)
   \<and> currentPanel (pushRightPanel demo RoomMemberInfo (Some carolState) True Null twoRooms)
        = \<lparr>phase = RoomMemberInfo, state = Some carolState\<rparr>"
proof -
  have room: "isViewingRoom twoRooms" by (simp add: twoRooms_def viewingA_def)
  have own: "coalesce Null (viewedRoomId twoRooms) = viewedRoomId twoRooms"
    by (simp add: coalesce_def)
  have rec: "byRoom twoRooms (toKey (viewedRoomId twoRooms)) \<noteq> None"
    by (simp add: twoRooms_def viewingA_def toKey_def)
  have bob: "member bobState = Some (Member ''@bob:hs'')" by (simp add: bobState_def)
  have carol: "member carolState = Some (Member ''@carol:hs'')" by (simp add: carolState_def)
  have pb: "pendingVerificationRequestForUser demo (Some (Member ''@bob:hs''))
      = Some (VerificationRequest 1)"
    by (simp add: demo_def)
  have pc: "pendingVerificationRequestForUser demo (Some (Member ''@carol:hs'')) = None"
    by (simp add: demo_def)
  have eb: "\<lparr>phase = EncryptionPanel,
              state = Some \<lparr>member = Some (Member ''@bob:hs''),
                            verificationRequest = Some (VerificationRequest 1),
                            otherFields = []\<rparr>\<rparr>
      = (case pendingVerificationRequestForUser demo (Some (Member ''@bob:hs'')) of
        Some R \<Rightarrow> \<lparr>phase = EncryptionPanel,
            state = Some \<lparr>member = Some (Member ''@bob:hs''), verificationRequest = Some R,
                          otherFields = []\<rparr>\<rparr>
      | None \<Rightarrow> \<lparr>phase = RoomMemberInfo, state = Some bobState\<rparr>)"
    by (simp add: pb)
  have ec: "\<lparr>phase = RoomMemberInfo, state = Some carolState\<rparr>
      = (case pendingVerificationRequestForUser demo (Some (Member ''@carol:hs'')) of
        Some R \<Rightarrow> \<lparr>phase = EncryptionPanel,
            state = Some \<lparr>member = Some (Member ''@carol:hs''), verificationRequest = Some R,
                          otherFields = []\<rparr>\<rparr>
      | None \<Rightarrow> \<lparr>phase = RoomMemberInfo, state = Some carolState\<rparr>)"
    by (simp add: pc)
  show ?thesis
    using room own rec bob carol pb pc
      verification_redirect_in_room_mode[OF room bob own eb, of True]
      verification_redirect_in_room_mode[OF room carol own ec, of True]
    by blast
qed

section \<open>Switching between a room and a group\<close>

lemma loadCacheFromSettings_other:
  "k \<noteq> toKey (viewedRoomId s) \<Longrightarrow> byRoom (loadCacheFromSettings E s) k = byRoom s k"
  by (simp add: loadCacheFromSettings_def Let_def split: option.splits)

lemma loadCacheFromSettings_present:
  "byRoom s (toKey (viewedRoomId s)) = Some r \<Longrightarrow>
    byRoom (loadCacheFromSettings E s) (toKey (viewedRoomId s)) = Some r"
  by (simp add: loadCacheFromSettings_def Let_def split: option.splits)

lemma loadCacheFromSettings_viewed [simp]:
  "viewedRoomId (loadCacheFromSettings E s) = viewedRoomId s"
  "isViewingRoom (loadCacheFromSettings E s) = isViewingRoom s"
  by (simp_all add: loadCacheFromSettings_def Let_def split: option.splits)

lemma emitAndUpdateSettings_fields [simp]:
  "byRoom (emitAndUpdateSettings E s) = byRoom s"
  "viewedRoomId (emitAndUpdateSettings E s) = viewedRoomId s"
  "isViewingRoom (emitAndUpdateSettings E s) = isViewingRoom s"
  by (simp_all add: emitAndUpdateSettings_def Let_def)

text \<open>
  C4. The claim: when the store views room A in room mode with current phase
  \<open>RoomMemberInfo\<close> and a dispatch switches to group B, the top of A's history is
  coerced to \<open>RoomMemberList\<close> with empty state before the switch. The branch that
  resets to \<open>RoomMemberList\<close> is guarded by \<open>payload.action == Action.ViewRoom\<close>, the
  switch from a group to a room; for \<open>view_group\<close> the only reset is from
  \<open>GroupMemberInfo\<close>. On the store that views \<open>!a:hs\<close> showing \<open>RoomMemberInfo\<close>,
  dispatching \<open>view_group\<close> for \<open>+g:hs\<close> changes the viewed id and the mode and
  nothing else: A's top entry is still \<open>RoomMemberInfo\<close> with its state.
\<close>

theorem onDispatch_room_to_group_keeps_member_info:
  "isViewingRoom memberInfoStore
   \<and> currentPanel memberInfoStore = \<lparr>phase = RoomMemberInfo, state = Some carolState\<rparr>
   \<and> onDispatch demo \<lparr>action = ViewGroup, room_id = Str ''+g:hs''\<rparr> memberInfoStore
     = memberInfoStore\<lparr>viewedRoomId := Str ''+g:hs'', isViewingRoom := False\<rparr>
   \<and> currentPanelForRoom
        (onDispatch demo \<lparr>action = ViewGroup, room_id = Str ''+g:hs''\<rparr> memberInfoStore)
        (Str ''!a:hs'')
     = \<lparr>phase = RoomMemberInfo, state = Some carolState\<rparr>"
  by (simp add: memberInfoStore_def onDispatch_def example_defs js_defs setter_defs)

text \<open>
  C4, as amended. When a room is viewed with current phase \<open>RoomMemberInfo\<close> and
  \<open>view_group\<close> is dispatched for a different id B, no coercion takes place: the store
  only takes B as the viewed id and leaves room mode, and then, if it holds a room-store
  token, loads B's record from the settings where B has none and persists and notifies.
  A's record is unchanged (B's key being another), and a record B already had is the one
  it has afterwards.
\<close>

theorem onDispatch_room_to_group_no_coercion:
  assumes room: "isViewingRoom s"
    and act: "action payload = ViewGroup"
    and other: "room_id payload \<noteq> viewedRoomId s"
    and cur: "phase (currentPanel s) = RoomMemberInfo"
  shows "onDispatch E payload s
      = (let s2 = s\<lparr>viewedRoomId := room_id payload, isViewingRoom := False\<rparr>
         in if roomStoreToken s then emitAndUpdateSettings E (loadCacheFromSettings E s2) else s2)
    \<and> viewedRoomId (onDispatch E payload s) = room_id payload
    \<and> \<not> isViewingRoom (onDispatch E payload s)
    \<and> (toKey (room_id payload) \<noteq> toKey (viewedRoomId s) \<longrightarrow>
         byRoom (onDispatch E payload s) (toKey (viewedRoomId s)) = byRoom s (toKey (viewedRoomId s)))
    \<and> (byRoom s (toKey (room_id payload)) \<noteq> None \<longrightarrow>
         byRoom (onDispatch E payload s) (toKey (room_id payload))
           = byRoom s (toKey (room_id payload)))"
proof -
  let ?s2 = "s\<lparr>viewedRoomId := room_id payload, isViewingRoom := False\<rparr>"
  have eq: "onDispatch E payload s
      = (if roomStoreToken s then emitAndUpdateSettings E (loadCacheFromSettings E ?s2) else ?s2)"
    using room act other cur by (simp add: onDispatch_def Let_def)
  have a: "toKey (room_id payload) \<noteq> toKey (viewedRoomId s) \<longrightarrow>
      byRoom (onDispatch E payload s) (toKey (viewedRoomId s)) = byRoom s (toKey (viewedRoomId s))"
    using loadCacheFromSettings_other[of "toKey (viewedRoomId s)" ?s2 E] by (auto simp: eq)
  have b: "byRoom s (toKey (room_id payload)) \<noteq> None \<longrightarrow>
      byRoom (onDispatch E payload s) (toKey (room_id payload)) = byRoom s (toKey (room_id payload))"
    using loadCacheFromSettings_present[of ?s2 _ E] by (auto simp: eq)
  have c: "viewedRoomId (onDispatch E payload s) = room_id payload
      \<and> \<not> isViewingRoom (onDispatch E payload s)"
    by (simp add: eq)
  show ?thesis using eq a b c by (simp add: Let_def)
qed

theorem onDispatch_room_to_group_no_coercion_witness:
  "isViewingRoom memberInfoStore
   \<and> action \<lparr>action = ViewGroup, room_id = Str ''+g:hs''\<rparr> = ViewGroup
   \<and> room_id \<lparr>action = ViewGroup, room_id = Str ''+g:hs''\<rparr> \<noteq> viewedRoomId memberInfoStore
   \<and> phase (currentPanel memberInfoStore) = RoomMemberInfo
   \<and> viewedRoomId (onDispatch demo \<lparr>action = ViewGroup, room_id = Str ''+g:hs''\<rparr> memberInfoStore)
       = Str ''+g:hs''
   \<and> \<not> isViewingRoom (onDispatch demo \<lparr>action = ViewGroup, room_id = Str ''+g:hs''\<rparr> memberInfoStore)
   \<and> byRoom (onDispatch demo \<lparr>action = ViewGroup, room_id = Str ''+g:hs''\<rparr> memberInfoStore) ''!a:hs''
       = byRoom memberInfoStore ''!a:hs''
   \<and> byRoom (onDispatch demo \<lparr>action = ViewGroup, room_id = Str ''+g:hs''\<rparr> memberInfoStore) ''+g:hs''
       = byRoom memberInfoStore ''+g:hs''"
proof -
  let ?p = "\<lparr>action = ViewGroup, room_id = Str ''+g:hs''\<rparr>"
  have h1: "isViewingRoom memberInfoStore" by (simp add: memberInfoStore_def viewingA_def)
  have h2: "action ?p = ViewGroup" by simp
  have h3: "room_id ?p \<noteq> viewedRoomId memberInfoStore"
    by (simp add: memberInfoStore_def viewingA_def)
  have h4: "phase (currentPanel memberInfoStore) = RoomMemberInfo"
    by (simp add: memberInfoStore_def viewingA_def currentPanel_def roomPhaseHistory_def toKey_def)
  have k: "toKey (room_id ?p) = ''+g:hs''" "toKey (viewedRoomId memberInfoStore) = ''!a:hs''"
    by (simp_all add: toKey_def memberInfoStore_def viewingA_def)
  have g: "byRoom memberInfoStore ''+g:hs'' \<noteq> None"
    by (simp add: memberInfoStore_def viewingA_def)
  show ?thesis
    using h1 h2 h3 h4 g
      onDispatch_room_to_group_no_coercion[OF h1 h2 h3 h4, of demo, THEN conjunct2]
    unfolding k by simp
qed

text \<open>
  The coercion to \<open>RoomMemberList\<close> is what the source does in the other direction: a
  room is about to be viewed from group mode while a member-info phase is current.
\<close>

lemma onDispatch_group_to_room_coerces:
  assumes "\<not> isViewingRoom s" "action payload = ViewRoom"
    and "toKey (room_id payload) \<noteq> toKey (viewedRoomId s)"
    and "phase (currentPanel s) \<in> set MEMBER_INFO_PHASES"
  shows "byRoom (onDispatch E payload s) (toKey (viewedRoomId s))
    = Some \<lparr>history = [\<lparr>phase = RoomMemberList, state = Some emptyState\<rparr>], isOpen = True\<rparr>"
proof -
  have ne: "room_id payload \<noteq> viewedRoomId s" using assms(3) by auto
  let ?s1 = "setRightPanelCache E RoomMemberList (Some emptyState) s"
  let ?s2 = "?s1\<lparr>viewedRoomId := room_id payload, isViewingRoom := True\<rparr>"
  have eq: "onDispatch E payload s
      = (if roomStoreToken ?s2 then emitAndUpdateSettings E (loadCacheFromSettings E ?s2) else ?s2)"
    using assms(1,2,4) ne by (simp add: onDispatch_def Let_def)
  have "byRoom ?s2 (toKey (viewedRoomId s))
      = Some \<lparr>history = [\<lparr>phase = RoomMemberList, state = Some emptyState\<rparr>], isOpen = True\<rparr>"
    by (simp add: setRightPanelCache_def)
  moreover have "byRoom (loadCacheFromSettings E ?s2) (toKey (viewedRoomId s))
      = byRoom ?s2 (toKey (viewedRoomId s))"
    using assms(3) by (intro loadCacheFromSettings_other) simp
  ultimately show ?thesis by (simp add: eq)
qed

end
